theory Spec2Isabelle
  imports Main "HOL-Library.Word"
begin

unbundle bit_operations_syntax

section \<open>X11 screen capture: the model\<close>

text \<open>
  The source is one C file, \<^verbatim>\<open>net_java_sip_communicator_impl_neomedia_imgstreaming_UnixScreenCapture.c\<close>,
  with the static routine \<^verbatim>\<open>x11_grab_screen\<close> and the JNI entry point that calls it.
  The routine is a straight line of calls into Xlib, the System V shared-memory
  interface and \<^verbatim>\<open>malloc\<close>. The model threads an explicit record of the resources
  the routine holds and a log of the calls it has issued; what each external call answers
  is read from an environment record.
\<close>

subsection \<open>Machine types\<close>

text \<open>
  \<^verbatim>\<open>int32_t\<close>, \<^verbatim>\<open>jint\<close> and \<^verbatim>\<open>int\<close> are 32-bit two's complement values, \<^verbatim>\<open>size_t\<close> and
  \<^verbatim>\<open>unsigned long\<close> are 64 bits wide (the source's comment at the conversion loop:
  "Linux 64 bit machine (sizeof(unsigned long) = 8)"). Signed overflow is undefined
  in C; the model takes the two's complement wrap-around of the machine addition and
  multiplication, which is what \<open>+\<close> and \<open>*\<close> on words do.
\<close>

type_synonym int32 = "32 word"
type_synonym size_t = "64 word"
type_synonym ulong = "64 word"

text \<open>An image as \<^verbatim>\<open>XGetPixel\<close> reads it: the pixel value at column \<open>i\<close>, row \<open>j\<close>.\<close>

type_synonym ximage = "nat \<Rightarrow> nat \<Rightarrow> ulong"

subsection \<open>The environment\<close>

text \<open>
  One field per external call whose answer the routine branches on or reads.
  \<^item> \<open>env_DISPLAY\<close>: \<^verbatim>\<open>getenv("DISPLAY")\<close>, \<open>None\<close> for a null pointer;
  \<^item> \<open>open_ok\<close>: whether \<^verbatim>\<open>XOpenDisplay\<close> connects to the named display;
  \<^item> \<open>screen_width\<close>, \<open>screen_height\<close>: \<^verbatim>\<open>DisplayWidth\<close> and \<^verbatim>\<open>DisplayHeight\<close>;
  \<^item> \<open>shm_ext\<close>: the answer of \<^verbatim>\<open>XShmQueryExtension\<close>;
  \<^item> \<open>create_ok\<close>: whether \<^verbatim>\<open>XShmCreateImage\<close> returns an image for the given size;
  \<^item> \<open>shmget_ok\<close>, \<open>shmat_ok\<close>, \<open>attach_ok\<close>: whether \<^verbatim>\<open>shmget\<close>, \<^verbatim>\<open>shmat\<close> and
    \<^verbatim>\<open>XShmAttach\<close> succeed;
  \<^item> \<open>shm_pixels x y\<close>: the answer of \<^verbatim>\<open>XShmGetImage\<close> at offset \<open>(x, y)\<close>: \<open>None\<close> when
    the request fails, otherwise the pixels the server wrote into the segment;
  \<^item> \<open>get_pixels x y w h\<close>: the answer of \<^verbatim>\<open>XGetImage\<close>: \<open>None\<close> for a null image;
  \<^item> \<open>heap_block n\<close>: the answer of \<^verbatim>\<open>malloc(n)\<close>: \<open>None\<close> for a null pointer, otherwise
    the (uninitialised) contents of the block, by slot;
  \<^item> \<open>new_array_ok\<close>: whether the JVM's \<^verbatim>\<open>NewIntArray\<close> can allocate.
  The visual, the depth and the root window are read from the connection and handed
  on to the image calls unchanged; no branch of the routine looks at them, and the model
  leaves them out.
\<close>

record env =
  env_DISPLAY :: "string option"
  open_ok :: "string \<Rightarrow> bool"
  screen_width :: int32
  screen_height :: int32
  shm_ext :: bool
  create_ok :: "int32 \<Rightarrow> int32 \<Rightarrow> bool"
  shmget_ok :: bool
  shmat_ok :: bool
  attach_ok :: bool
  shm_pixels :: "int32 \<Rightarrow> int32 \<Rightarrow> ximage option"
  get_pixels :: "int32 \<Rightarrow> int32 \<Rightarrow> int32 \<Rightarrow> int32 \<Rightarrow> ximage option"
  heap_block :: "size_t \<Rightarrow> (nat \<Rightarrow> int32) option"
  new_array_ok :: bool

subsection \<open>Resources and the call log\<close>

datatype xcall =
    Call_XOpenDisplay string
  | Call_XCloseDisplay
  | Call_XShmQueryExtension
  | Call_XShmCreateImage int32 int32
  | Call_shmget
  | Call_shmat
  | Call_shmctl_RMID
  | Call_XShmAttach
  | Call_XShmGetImage int32 int32
  | Call_XShmDetach
  | Call_shmdt
  | Call_XGetImage int32 int32 int32 int32
  | Call_malloc size_t
  | Call_XDestroyImage

text \<open>
  What the routine holds: the display connection, the \<^verbatim>\<open>XImage\<close>, the segment's mapping
  into this process (\<^verbatim>\<open>shmat\<close> to \<^verbatim>\<open>shmdt\<close>), the segment's attachment to the
  server (\<^verbatim>\<open>XShmAttach\<close> to \<^verbatim>\<open>XShmDetach\<close>); and the calls issued so far, oldest first.
\<close>

record resources =
  display_open :: bool
  image_live :: bool
  shm_mapped :: bool
  shm_server :: bool
  calls :: "xcall list"

definition no_resources :: resources where
  "no_resources =
     \<lparr>display_open = False, image_live = False, shm_mapped = False, shm_server = False,
      calls = []\<rparr>"

definition issue :: "xcall \<Rightarrow> resources \<Rightarrow> resources" where
  "issue c s = s\<lparr>calls := calls s @ [c]\<rparr>"

definition XOpenDisplay :: "env \<Rightarrow> string \<Rightarrow> resources \<Rightarrow> bool \<times> resources" where
  "XOpenDisplay e display_str s =
     (if open_ok e display_str
      then (True, (issue (Call_XOpenDisplay display_str) s)\<lparr>display_open := True\<rparr>)
      else (False, issue (Call_XOpenDisplay display_str) s))"

definition XCloseDisplay :: "resources \<Rightarrow> resources" where
  "XCloseDisplay s = (issue Call_XCloseDisplay s)\<lparr>display_open := False\<rparr>"

definition XShmQueryExtension :: "env \<Rightarrow> resources \<Rightarrow> bool \<times> resources" where
  "XShmQueryExtension e s = (shm_ext e, issue Call_XShmQueryExtension s)"

definition XShmCreateImage :: "env \<Rightarrow> int32 \<Rightarrow> int32 \<Rightarrow> resources \<Rightarrow> bool \<times> resources" where
  "XShmCreateImage e w h s =
     (if create_ok e w h
      then (True, (issue (Call_XShmCreateImage w h) s)\<lparr>image_live := True\<rparr>)
      else (False, issue (Call_XShmCreateImage w h) s))"

text \<open>\<^verbatim>\<open>shmget\<close> returns a segment id, or -1; the model keeps whether the id is valid.\<close>

definition shmget :: "env \<Rightarrow> resources \<Rightarrow> bool \<times> resources" where
  "shmget e s = (shmget_ok e, issue Call_shmget s)"

text \<open>
  \<^verbatim>\<open>shmat\<close> maps the segment, or returns \<^verbatim>\<open>(void*)-1\<close>: always so for an invalid id
  (\<^verbatim>\<open>EINVAL\<close>). The result is whether the address is a mapping.
\<close>

definition shmat :: "env \<Rightarrow> bool \<Rightarrow> resources \<Rightarrow> bool \<times> resources" where
  "shmat e shmid_valid s =
     (if shmid_valid \<and> shmat_ok e
      then (True, (issue Call_shmat s)\<lparr>shm_mapped := True\<rparr>)
      else (False, issue Call_shmat s))"

text \<open>
  \<^verbatim>\<open>shmctl(shmid, IPC_RMID, NULL)\<close> marks the segment for removal once nothing is attached
  to it; it changes none of the attachments.
\<close>

definition shmctl_RMID :: "resources \<Rightarrow> resources" where
  "shmctl_RMID s = issue Call_shmctl_RMID s"

definition XShmAttach :: "env \<Rightarrow> resources \<Rightarrow> bool \<times> resources" where
  "XShmAttach e s =
     (if attach_ok e
      then (True, (issue Call_XShmAttach s)\<lparr>shm_server := True\<rparr>)
      else (False, issue Call_XShmAttach s))"

definition XShmGetImage :: "env \<Rightarrow> int32 \<Rightarrow> int32 \<Rightarrow> resources \<Rightarrow> ximage option \<times> resources" where
  "XShmGetImage e x y s = (shm_pixels e x y, issue (Call_XShmGetImage x y) s)"

definition XShmDetach :: "resources \<Rightarrow> resources" where
  "XShmDetach s = (issue Call_XShmDetach s)\<lparr>shm_server := False\<rparr>"

definition shmdt :: "resources \<Rightarrow> resources" where
  "shmdt s = (issue Call_shmdt s)\<lparr>shm_mapped := False\<rparr>"

definition XGetImage ::
  "env \<Rightarrow> int32 \<Rightarrow> int32 \<Rightarrow> int32 \<Rightarrow> int32 \<Rightarrow> resources \<Rightarrow> ximage option \<times> resources" where
  "XGetImage e x y w h s =
     (case get_pixels e x y w h of
        None \<Rightarrow> (None, issue (Call_XGetImage x y w h) s)
      | Some img \<Rightarrow> (Some img, (issue (Call_XGetImage x y w h) s)\<lparr>image_live := True\<rparr>))"

definition XDestroyImage :: "resources \<Rightarrow> resources" where
  "XDestroyImage s = (issue Call_XDestroyImage s)\<lparr>image_live := False\<rparr>"

definition XGetPixel :: "ximage \<Rightarrow> nat \<Rightarrow> nat \<Rightarrow> ulong" where
  "XGetPixel img i j = img i j"

text \<open>
  \<^verbatim>\<open>malloc(n)\<close>: a null pointer, or a block of \<open>n\<close> bytes, which holds \<open>n div 4\<close> slots of
  type \<^verbatim>\<open>int32_t\<close> with whatever the heap had there. No block is larger than
  \<^verbatim>\<open>PTRDIFF_MAX\<close> bytes (\<^verbatim>\<open>stdint.h\<close>; \<open>2^63 - 1\<close> where \<^verbatim>\<open>size_t\<close> has 64 bits): the C
  library refuses such a request, and no process has that much address space.
\<close>

definition PTRDIFF_MAX :: nat where
  "PTRDIFF_MAX = 2 ^ 63 - 1"

definition malloc :: "env \<Rightarrow> size_t \<Rightarrow> resources \<Rightarrow> int32 list option \<times> resources" where
  "malloc e n s =
     (if PTRDIFF_MAX < unat n then (None, issue (Call_malloc n) s)
      else case heap_block e n of
             None \<Rightarrow> (None, issue (Call_malloc n) s)
           | Some g \<Rightarrow> (Some (map g [0 ..< unat n div 4]), issue (Call_malloc n) s))"

subsection \<open>The conversion loops (lines 165 to 178)\<close>

text \<open>
  \<^verbatim>\<open>
  for(j = 0 ; j < h ; j++)
    for(i = 0 ; i < w ; i++)
    {
      uint32_t pixel = (uint32_t)XGetPixel(img, i, j);
      pixel |= 0xff000000;
      data[off++] = pixel;
    }
  \<close>
  The counters \<open>i\<close> and \<open>j\<close> start at 0 and stay below \<open>w\<close> and \<open>h\<close>, so they are
  natural numbers compared with the signed values of \<open>w\<close> and \<open>h\<close>. A store at an
  offset that is not a slot of the block is a write past the end of \<open>data\<close>: the loop
  stops with \<open>None\<close> there.
\<close>

definition to_argb :: "ulong \<Rightarrow> int32" where
  "to_argb p = (ucast p :: 32 word) OR 0xff000000"

function row_loop :: "ximage \<Rightarrow> int32 \<Rightarrow> nat \<Rightarrow> nat \<Rightarrow> nat \<times> int32 list \<Rightarrow> (nat \<times> int32 list) option" where
  "row_loop img w j i (off, data) =
     (if int i < sint w
      then (if off < length data
            then row_loop img w j (Suc i) (Suc off, data[off := to_argb (XGetPixel img i j)])
            else None)
      else Some (off, data))"
  by pat_completeness auto
termination
  by (relation "measure (\<lambda>(img, w, j, i, s). nat (sint w) - i)") auto

function rows_loop :: "ximage \<Rightarrow> int32 \<Rightarrow> int32 \<Rightarrow> nat \<Rightarrow> nat \<times> int32 list \<Rightarrow> (nat \<times> int32 list) option" where
  "rows_loop img w h j (off, data) =
     (if int j < sint h
      then (case row_loop img w j 0 (off, data) of
              None \<Rightarrow> None
            | Some s \<Rightarrow> rows_loop img w h (Suc j) s)
      else Some (off, data))"
  by pat_completeness auto
termination
  by (relation "measure (\<lambda>(img, w, h, j, s). nat (sint h) - j)") auto

declare row_loop.simps [simp del]
declare rows_loop.simps [simp del]

definition convert :: "ximage \<Rightarrow> int32 \<Rightarrow> int32 \<Rightarrow> int32 list \<Rightarrow> int32 list option" where
  "convert img w h data = map_option snd (rows_loop img w h 0 (0, data))"

subsection \<open>The capture routine\<close>

text \<open>
  The routine returns a null pointer or the filled block. \<open>Overrun\<close> stands for a run
  that wrote past the end of the block: the C program has no defined result there.
\<close>

datatype outcome = Null | Data "int32 list" | Overrun

text \<open>
  The release sequence, written twice in the source (lines 153 to 161 after a failed
  \<^verbatim>\<open>malloc\<close>, lines 181 to 189 on success): destroy the image, detach and unmap the
  segment when the fast path was taken, close the connection.
\<close>

definition release :: "bool \<Rightarrow> resources \<Rightarrow> resources" where
  "release shm_support s =
     (let s1 = XDestroyImage s;
          s2 = (if shm_support then shmdt (XShmDetach s1) else s1)
      in XCloseDisplay s2)"

text \<open>
  Lines 102 to 133, the fast path. The condition of line 118,
  \<^verbatim>\<open>(shm_info.shmaddr == (void*)-1) || !XShmAttach(display, &shm_info)\<close>, is evaluated left
  to right: \<^verbatim>\<open>XShmAttach\<close> is called only when the segment is mapped. The size handed to
  \<^verbatim>\<open>shmget\<close> (\<^verbatim>\<open>img->bytes_per_line * img->height\<close>) and the assignments to \<^verbatim>\<open>img->data\<close>
  and \<^verbatim>\<open>shm_info.readOnly\<close> decide no branch and change no resource; they are left out.
\<close>

definition grab_shm ::
  "env \<Rightarrow> int32 \<Rightarrow> int32 \<Rightarrow> int32 \<Rightarrow> int32 \<Rightarrow> resources \<Rightarrow> ximage option \<times> resources" where
  "grab_shm e x y w h s =
     (case XShmCreateImage e w h s of
        (False, s1) \<Rightarrow> (None, XCloseDisplay s1)
      | (True, s1) \<Rightarrow>
          (case shmget e s1 of (shmid_valid, s2) \<Rightarrow>
           case shmat e shmid_valid s2 of (mapped, s3) \<Rightarrow>
           let s4 = shmctl_RMID s3 in
           if mapped
           then (case XShmAttach e s4 of
                   (False, s5) \<Rightarrow> (None, XCloseDisplay s5)
                 | (True, s5) \<Rightarrow>
                     (case XShmGetImage e x y s5 of
                        (None, s6) \<Rightarrow> (None, XCloseDisplay (shmdt (XShmDetach s6)))
                      | (Some img, s6) \<Rightarrow> (Some img, s6)))
           else (None, XCloseDisplay s4)))"

text \<open>Lines 139 to 146, the fallback.\<close>

definition grab_plain ::
  "env \<Rightarrow> int32 \<Rightarrow> int32 \<Rightarrow> int32 \<Rightarrow> int32 \<Rightarrow> resources \<Rightarrow> ximage option \<times> resources" where
  "grab_plain e x y w h s =
     (case XGetImage e x y w h s of
        (None, s1) \<Rightarrow> (None, XCloseDisplay s1)
      | (Some img, s1) \<Rightarrow> (Some img, s1))"

text \<open>\<^verbatim>\<open>size = w * h\<close>: the 32-bit product, converted to \<^verbatim>\<open>size_t\<close> (sign extended).\<close>

definition size_of_region :: "int32 \<Rightarrow> int32 \<Rightarrow> size_t" where
  "size_of_region w h = scast (w * h)"

text \<open>Lines 90 to 192: everything after the bounds check.\<close>

definition capture :: "env \<Rightarrow> int32 \<Rightarrow> int32 \<Rightarrow> int32 \<Rightarrow> int32 \<Rightarrow> resources \<Rightarrow> outcome \<times> resources" where
  "capture e x y w h s =
     (let size = size_of_region w h in
      case XShmQueryExtension e s of (shm_support, s1) \<Rightarrow>
       (case (if shm_support then grab_shm e x y w h s1 else grab_plain e x y w h s1) of
          (None, s2) \<Rightarrow> (Null, s2)
        | (Some img, s2) \<Rightarrow>
            (case malloc e (4 * size) s2 of
               (None, s3) \<Rightarrow> (Null, release shm_support s3)
             | (Some data, s3) \<Rightarrow>
                 (case convert img w h data of
                    None \<Rightarrow> (Overrun, s3)
                  | Some data' \<Rightarrow> (Data data', release shm_support s3)))))"

text \<open>
  Line 59: \<^verbatim>\<open>display_str = x11display ? x11display : getenv("DISPLAY")\<close>, with
  \<open>None\<close> for a null pointer.
\<close>

definition display_str_of :: "env \<Rightarrow> string option \<Rightarrow> string option" where
  "display_str_of e x11display =
     (case x11display of Some d \<Rightarrow> Some d | None \<Rightarrow> env_DISPLAY e)"

text \<open>
  Line 84: \<^verbatim>\<open>(w + x) > width || (h + y) > height\<close>, on 32-bit signed integers: the sums
  are the machine's.
\<close>

definition out_of_bounds :: "env \<Rightarrow> int32 \<Rightarrow> int32 \<Rightarrow> int32 \<Rightarrow> int32 \<Rightarrow> bool" where
  "out_of_bounds e x y w h =
     (sint (screen_width e) < sint (w + x) \<or> sint (screen_height e) < sint (h + y))"

text \<open>The whole routine, lines 40 to 193.\<close>

definition x11_grab_screen ::
  "env \<Rightarrow> string option \<Rightarrow> int32 \<Rightarrow> int32 \<Rightarrow> int32 \<Rightarrow> int32 \<Rightarrow> outcome \<times> resources" where
  "x11_grab_screen e x11display x y w h =
     (case display_str_of e x11display of
        None \<Rightarrow> (Null, no_resources)
      | Some display_str \<Rightarrow>
          (case XOpenDisplay e display_str no_resources of
             (False, s) \<Rightarrow> (Null, s)
           | (True, s) \<Rightarrow>
               if out_of_bounds e x y w h
               then (Null, XCloseDisplay s)
               else capture e x y w h s))"

subsection \<open>The JNI entry point (lines 205 to 228)\<close>

text \<open>
  \<^verbatim>\<open>NewIntArray(env, size)\<close> takes a \<^verbatim>\<open>jsize\<close>, a 32-bit signed length: the \<^verbatim>\<open>size_t\<close> is
  truncated. It returns a null reference for a negative length or when the JVM cannot
  allocate, otherwise a zeroed array. \<^verbatim>\<open>SetIntArrayRegion(env, ret, start, len, buf)\<close>
  copies \<open>len\<close> elements of \<open>buf\<close> into the array from index \<open>start\<close>; the region must lie
  inside the array and inside the block \<open>buf\<close> points to.
\<close>

definition NewIntArray :: "env \<Rightarrow> int32 \<Rightarrow> int32 list option" where
  "NewIntArray e len =
     (if sint len < 0 then None
      else if new_array_ok e then Some (replicate (nat (sint len)) 0)
      else None)"

definition SetIntArrayRegion :: "int32 list \<Rightarrow> int32 \<Rightarrow> int32 \<Rightarrow> int32 list \<Rightarrow> int32 list option" where
  "SetIntArrayRegion arr start len buf =
     (if 0 \<le> sint start \<and> 0 \<le> sint len
         \<and> nat (sint start) + nat (sint len) \<le> length arr \<and> nat (sint len) \<le> length buf
      then Some (take (nat (sint start)) arr @ take (nat (sint len)) buf
                 @ drop (nat (sint start) + nat (sint len)) arr)
      else None)"

text \<open>
  What the entry point hands to the JVM: a null reference (\<^verbatim>\<open>return 0\<close>), the filled
  array, or no defined result (the capture overran its block, or the unchecked result
  of \<^verbatim>\<open>NewIntArray\<close> was null or too short for the copy).
\<close>

datatype jresult = JNull | JArray "int32 list" | JUndefined

definition Java_net_java_sip_communicator_impl_neomedia_imgstreaming_UnixScreenCapture_grabScreen ::
  "env \<Rightarrow> int32 \<Rightarrow> int32 \<Rightarrow> int32 \<Rightarrow> int32 \<Rightarrow> jresult" where
  "Java_net_java_sip_communicator_impl_neomedia_imgstreaming_UnixScreenCapture_grabScreen
     e x y width height =
     (let size = size_of_region width height in
      case fst (x11_grab_screen e None x y width height) of
        Null \<Rightarrow> JNull
      | Overrun \<Rightarrow> JUndefined
      | Data data \<Rightarrow>
          (case NewIntArray e (ucast size) of
             None \<Rightarrow> JUndefined
           | Some ret \<Rightarrow>
               (case SetIntArrayRegion ret 0 (ucast size) data of
                  None \<Rightarrow> JUndefined
                | Some ret' \<Rightarrow> JArray ret')))"

subsection \<open>Concrete environments\<close>

text \<open>
  A 10 by 10 screen on display \<open>:0.0\<close> whose pixel values carry bits above bit 31, with
  every call succeeding and no shared-memory extension; and variants of it.
\<close>

definition mock_image :: "int32 \<Rightarrow> int32 \<Rightarrow> ximage" where
  "mock_image x y i j = 0xABCD00000000 + 0x100 * (ucast x + of_nat i) + (ucast y + of_nat j)"

definition env_plain :: env where
  "env_plain =
     \<lparr>env_DISPLAY = Some '':0.0'', open_ok = (\<lambda>d. True),
      screen_width = 10, screen_height = 10, shm_ext = False,
      create_ok = (\<lambda>w h. True), shmget_ok = True, shmat_ok = True, attach_ok = True,
      shm_pixels = (\<lambda>x y. Some (mock_image x y)),
      get_pixels = (\<lambda>x y w h. Some (mock_image x y)),
      heap_block = (\<lambda>n. Some (\<lambda>k. 0x12345678)), new_array_ok = True\<rparr>"

definition env_shm :: env where
  "env_shm = env_plain\<lparr>shm_ext := True, heap_block := (\<lambda>n. Some (\<lambda>k. 0))\<rparr>"

text \<open>
  The plain environment again, with other contents in fresh blocks, other pixel values
  outside a 2 by 2 image, and a JVM that cannot allocate.
\<close>

definition env_other :: env where
  "env_other = env_plain
     \<lparr>get_pixels := (\<lambda>x y w h. Some (\<lambda>i j. if i < 2 \<and> j < 2 then mock_image x y i j else 0)),
      heap_block := (\<lambda>n. Some (\<lambda>k. 0x55555555)),
      new_array_ok := False\<rparr>"

text \<open>
  The plain environment with a \<^verbatim>\<open>malloc\<close> that fails, and with a heap that hands out zeroed
  blocks: each differs from \<open>env_plain\<close> in \<open>heap_block\<close> only.
\<close>

definition env_no_memory :: env where
  "env_no_memory = env_plain\<lparr>heap_block := (\<lambda>n. None)\<rparr>"

definition env_zero_heap :: env where
  "env_zero_heap = env_plain\<lparr>heap_block := (\<lambda>n. Some (\<lambda>k. 0))\<rparr>"

definition env_no_display :: env where
  "env_no_display = env_plain\<lparr>env_DISPLAY := None\<rparr>"

definition env_create_fails :: env where
  "env_create_fails = env_shm\<lparr>create_ok := (\<lambda>w h. False)\<rparr>"

definition env_attach_fails :: env where
  "env_attach_fails = env_shm\<lparr>attach_ok := False\<rparr>"

definition env_shmget_image_fails :: env where
  "env_shmget_image_fails = env_shm\<lparr>shm_pixels := (\<lambda>x y. None)\<rparr>"

section \<open>Properties\<close>

subsection \<open>Unfolding the calls\<close>

lemmas call_defs =
  issue_def XOpenDisplay_def XCloseDisplay_def XShmQueryExtension_def XShmCreateImage_def
  shmget_def shmat_def shmctl_RMID_def XShmAttach_def XShmGetImage_def XShmDetach_def
  shmdt_def XGetImage_def XDestroyImage_def malloc_def PTRDIFF_MAX_def

lemmas env_defs =
  env_plain_def env_shm_def env_other_def env_no_memory_def env_zero_heap_def env_no_display_def env_create_fails_def env_attach_fails_def
  env_shmget_image_fails_def

lemmas run_defs =
  x11_grab_screen_def display_str_of_def out_of_bounds_def capture_def grab_plain_def
  grab_shm_def release_def call_defs no_resources_def size_of_region_def convert_def
  to_argb_def XGetPixel_def Let_def

lemmas eval_simps = run_defs env_defs mock_image_def rows_loop.simps row_loop.simps upt_rec

subsection \<open>The conversion loops\<close>

text \<open>
  A row that ends normally has written one converted pixel per column, in order, from
  the offset it started at, and has touched nothing else.
\<close>

lemma row_loop_Some:
  "row_loop img w j i s = Some s' \<Longrightarrow>
     length (snd s') = length (snd s) \<and> fst s' = fst s + (nat (sint w) - i) \<and>
     (\<forall>k. fst s \<le> k \<and> k < fst s' \<longrightarrow> snd s' ! k = to_argb (XGetPixel img (i + (k - fst s)) j)) \<and>
     (\<forall>k. k < fst s \<or> fst s' \<le> k \<longrightarrow> snd s' ! k = snd s ! k) \<and>
     (fst s \<le> length (snd s) \<longrightarrow> fst s' \<le> length (snd s'))"
proof (induction img w j i s arbitrary: s' rule: row_loop.induct)
  case (1 img w j i off data)
  define v where "v = to_argb (XGetPixel img i j)"
  have unfold: "row_loop img w j i (off, data) =
     (if int i < sint w
      then (if off < length data
            then row_loop img w j (Suc i) (Suc off, data[off := v])
            else None)
      else Some (off, data))"
    unfolding v_def by (rule row_loop.simps)
  show ?case
  proof (cases "int i < sint w")
    case False
    with "1.prems" unfold have "s' = (off, data)" by simp
    with False show ?thesis by auto
  next
    case True
    with "1.prems" unfold have lt: "off < length data"
      and rec: "row_loop img w j (Suc i) (Suc off, data[off := v]) = Some s'"
      by (simp_all split: if_splits)
    note IH = "1.IH"[OF True lt rec [unfolded v_def], folded v_def]
    from True have n: "nat (sint w) - i = Suc (nat (sint w) - Suc i)" by linarith
    have len: "length (snd s') = length data" using IH by simp
    have off1: "fst s' = Suc off + (nat (sint w) - Suc i)" using IH by simp
    have off': "fst s' = off + (nat (sint w) - i)" using off1 n by simp
    have IHin: "snd s' ! k = to_argb (XGetPixel img (Suc i + (k - Suc off)) j)"
      if "Suc off \<le> k" "k < fst s'" for k
      using IH that by auto
    have IHout: "snd s' ! k = data[off := v] ! k" if "k < Suc off \<or> fst s' \<le> k" for k
      using IH that by auto
    have bound: "fst s' \<le> length (snd s')" using IH lt by simp
    have inside: "snd s' ! k = to_argb (XGetPixel img (i + (k - off)) j)"
      if "off \<le> k" "k < fst s'" for k
    proof (cases "k = off")
      case True
      have "snd s' ! off = v" using IHout [of off] lt by simp
      then show ?thesis using True by (simp add: v_def)
    next
      case False
      with that have k: "Suc off \<le> k" by simp
      then have e: "Suc i + (k - Suc off) = i + (k - off)" by arith
      from IHin [OF k that(2)] show ?thesis by (simp only: e)
    qed
    have outside: "snd s' ! k = data ! k" if "k < off \<or> fst s' \<le> k" for k
    proof -
      from that off1 have "k < Suc off \<or> fst s' \<le> k" and "k \<noteq> off" by arith+
      with IHout [of k] show ?thesis by simp
    qed
    show ?thesis using len off' inside outside bound by simp
  qed
qed

lemma rows_loop_Some:
  "rows_loop img w h j s = Some s' \<Longrightarrow>
     length (snd s') = length (snd s) \<and>
     fst s' = fst s + (nat (sint h) - j) * nat (sint w) \<and>
     (\<forall>k. k < fst s \<or> fst s' \<le> k \<longrightarrow> snd s' ! k = snd s ! k) \<and>
     (\<forall>J I. j \<le> J \<and> int J < sint h \<and> int I < sint w \<longrightarrow>
        snd s' ! (fst s + (J - j) * nat (sint w) + I) = to_argb (XGetPixel img I J)) \<and>
     (fst s \<le> length (snd s) \<longrightarrow> fst s' \<le> length (snd s'))"
proof (induction img w h j s arbitrary: s' rule: rows_loop.induct)
  case (1 img w h j off data)
  define W where "W = nat (sint w)"
  have unfold: "rows_loop img w h j (off, data) =
     (if int j < sint h
      then (case row_loop img w j 0 (off, data) of
              None \<Rightarrow> None
            | Some s \<Rightarrow> rows_loop img w h (Suc j) s)
      else Some (off, data))"
    by (rule rows_loop.simps)
  show ?case
  proof (cases "int j < sint h")
    case False
    with "1.prems" unfold have "s' = (off, data)" by simp
    with False show ?thesis by auto
  next
    case True
    with "1.prems" unfold obtain s1 where
      row: "row_loop img w j 0 (off, data) = Some s1"
      and rec: "rows_loop img w h (Suc j) s1 = Some s'"
      by (auto split: option.splits)
    note R = row_loop_Some [OF row, simplified, folded W_def]
    note IH = "1.IH"[OF True row rec, folded W_def]
    from True have n: "nat (sint h) - j = Suc (nat (sint h) - Suc j)" by linarith
    have off1: "fst s1 = off + W" using R by simp
    have len1: "length (snd s1) = length data" using R by simp
    have Rin: "snd s1 ! k = to_argb (XGetPixel img (k - off) j)" if "off \<le> k" "k < off + W" for k
      using R that by auto
    have Rout: "snd s1 ! k = data ! k" if "k < off \<or> off + W \<le> k" for k
      using R that by auto
    have len: "length (snd s') = length data" using IH len1 by simp
    have off': "fst s' = off + (nat (sint h) - j) * W" using IH off1 n by simp
    have ge: "fst s1 \<le> fst s'" using IH by simp
    have IHout: "snd s' ! k = snd s1 ! k" if "k < fst s1 \<or> fst s' \<le> k" for k
      using IH that by auto
    have IHin: "snd s' ! (fst s1 + (J - Suc j) * W + I) = to_argb (XGetPixel img I J)"
      if "Suc j \<le> J" "int J < sint h" "int I < sint w" for J I
      using IH that by auto
    have outside: "snd s' ! k = data ! k" if "k < off \<or> fst s' \<le> k" for k
    proof -
      from that off1 ge have a: "k < fst s1 \<or> fst s' \<le> k" by arith
      from that off1 ge have b: "k < off \<or> off + W \<le> k" by arith
      from IHout [OF a] Rout [OF b] show ?thesis by simp
    qed
    have inside: "snd s' ! (off + (J - j) * W + I) = to_argb (XGetPixel img I J)"
      if "j \<le> J" "int J < sint h" "int I < sint w" for J I
    proof (cases "J = j")
      case True
      from that have IW: "I < W" unfolding W_def by linarith
      then have "off + I < fst s1" using off1 by simp
      then have "snd s' ! (off + I) = snd s1 ! (off + I)" using IHout by simp
      also from Rin [of "off + I"] IW have "\<dots> = to_argb (XGetPixel img I j)" by simp
      finally show ?thesis using True by simp
    next
      case False
      with that have sj: "Suc j \<le> J" by simp
      then have "J - j = Suc (J - Suc j)" by simp
      then have "(J - j) * W = W + (J - Suc j) * W" by simp
      then have "off + (J - j) * W + I = fst s1 + (J - Suc j) * W + I" using off1 by simp
      with IHin [OF sj that(2,3)] show ?thesis by simp
    qed
    have bound: "fst s' \<le> length (snd s')" if "off \<le> length data"
      using IH R that by simp
    show ?thesis using len off' outside inside bound by (simp add: W_def)
  qed
qed

lemma convert_Some:
  assumes "convert img w h data = Some data'"
  shows "length data' = length data"
    and "nat (sint h) * nat (sint w) \<le> length data"
    and "int i < sint w \<Longrightarrow> int j < sint h \<Longrightarrow> data' ! (j * nat (sint w) + i) = to_argb (XGetPixel img i j)"
    and "nat (sint h) * nat (sint w) \<le> k \<Longrightarrow> data' ! k = data ! k"
proof -
  from assms obtain off' where r: "rows_loop img w h 0 (0, data) = Some (off', data')"
    by (auto simp: convert_def)
  note R = rows_loop_Some [OF r, simplified]
  show "length data' = length data" using R by simp
  show "nat (sint h) * nat (sint w) \<le> length data" using R by simp
  show "data' ! (j * nat (sint w) + i) = to_argb (XGetPixel img i j)"
    if "int i < sint w" "int j < sint h" using R that by simp
  show "data' ! k = data ! k" if "nat (sint h) * nat (sint w) \<le> k" using R that by simp
qed





text \<open>Every offset below W * H is j * W + i for a pixel (i, j) of the region.\<close>

lemma region_index:
  assumes "k < nat (sint h) * nat (sint w)"
  obtains i j where "int i < sint w" "int j < sint h" "k = j * nat (sint w) + i"
proof -
  define W where "W = nat (sint w)"
  from assms have W: "0 < W" by (cases "W = 0") (simp_all add: W_def)
  have "k mod W < W" using W by simp
  then have i: "int (k mod W) < sint w" by (simp add: W_def)
  have "k div W < nat (sint h)" using assms W by (simp add: W_def less_mult_imp_div_less)
  then have j: "int (k div W) < sint h" by simp
  have "k = (k div W) * W + k mod W" by simp
  with i j that show thesis unfolding W_def by blast
qed


subsection \<open>The size of the block\<close>

lemma uint_size: "uint (size_of_region w h) = sint (w * h) mod 2 ^ 64"
  unfolding size_of_region_def scast_eq uint_word_of_int by simp

lemma uint_bytes: "uint (4 * size_of_region w h) = (4 * sint (w * h)) mod 2 ^ 64"
proof -
  have "uint (4 * size_of_region w h) = (4 * uint (size_of_region w h)) mod 2 ^ 64"
    by (simp add: uint_word_ariths)
  also have "\<dots> = (4 * sint (w * h)) mod 2 ^ 64"
    unfolding uint_size by (simp add: mod_mult_right_eq)
  finally show ?thesis .
qed

lemma sint32_range: "- 2147483648 \<le> sint (v :: int32) \<and> sint v < 2147483648"
  using sint_ge [of v] sint_lt [of v] by simp

lemma size_fits:
  assumes "unat (4 * size_of_region w h) \<le> PTRDIFF_MAX"
  shows "0 \<le> sint (w * h)"
    and "unat (4 * size_of_region w h) div 4 = nat (sint (w * h))"
    and "unat (size_of_region w h) = nat (sint (w * h))"
proof -
  define v where "v = sint (w * h)"
  have r: "- 2147483648 \<le> v" "v < 2147483648" using sint32_range [of "w * h"] by (simp_all add: v_def)
  have b: "(4 * v) mod 2 ^ 64 \<le> 2 ^ 63 - 1"
    using assms by (simp add: unat_eq_nat_uint uint_bytes PTRDIFF_MAX_def v_def)
  show nonneg: "0 \<le> sint (w * h)"
  proof (rule ccontr)
    assume "\<not> 0 \<le> sint (w * h)"
    then have neg: "v < 0" by (simp add: v_def)
    have "(4 * v + 2 ^ 64) mod 2 ^ 64 = 4 * v + 2 ^ 64"
      using r neg by (intro mod_pos_pos_trivial) simp_all
    then have "(4 * v) mod 2 ^ 64 = 4 * v + 2 ^ 64" by simp
    with b r show False by simp
  qed
  then have v0: "0 \<le> v" by (simp add: v_def)
  have "(4 * v) mod 2 ^ 64 = 4 * v" using r v0 by simp
  then show "unat (4 * size_of_region w h) div 4 = nat (sint (w * h))"
    by (simp add: unat_eq_nat_uint uint_bytes flip: v_def)
  have "v mod 2 ^ 64 = v" using r v0 by simp
  then show "unat (size_of_region w h) = nat (sint (w * h))"
    by (simp add: unat_eq_nat_uint uint_size flip: v_def)
qed

lemma product_exact:
  assumes "0 \<le> sint w" "0 \<le> sint h" "0 \<le> sint (w * h)"
    and "nat (sint h) * nat (sint w) \<le> nat (sint (w * h))"
  shows "sint (w * h) = sint w * sint (h :: int32)"
proof -
  have "sint w * sint h = int (nat (sint h) * nat (sint w))" using assms by simp
  also have "\<dots> \<le> sint (w * h)" using assms by linarith
  finally have le: "sint w * sint h \<le> sint (w * h)" .
  have "sint (w * h) < 2147483648" using sint32_range by blast
  with le have "sint w * sint h < 2 ^ 31" by simp
  moreover have "- (2 ^ 31) \<le> sint w * sint h" using assms by (simp add: order_trans [of _ 0])
  ultimately have "signed_take_bit 31 (sint w * sint h) = sint w * sint h"
    by (rule signed_take_bit_int_eq_self [rotated])
  then show ?thesis by (simp add: sint_word_mult)
qed

subsection \<open>A successful capture\<close>

lemma grab_shm_Some:
  "grab_shm e x y w h s = (Some img, s') \<Longrightarrow>
     shm_pixels e x y = Some img \<and> create_ok e w h \<and> shmget_ok e \<and> shmat_ok e \<and> attach_ok e"
  by (auto simp: grab_shm_def call_defs Let_def split: if_splits option.splits)

lemma grab_plain_Some:
  "grab_plain e x y w h s = (Some img, s') \<Longrightarrow> get_pixels e x y w h = Some img"
  by (auto simp: grab_plain_def call_defs split: option.splits)

lemma capture_Data:
  assumes "capture e x y w h s = (Data buf, s')"
  obtains img g where
    "(if shm_ext e then shm_pixels e x y else get_pixels e x y w h) = Some img"
    "unat (4 * size_of_region w h) \<le> PTRDIFF_MAX"
    "heap_block e (4 * size_of_region w h) = Some g"
    "convert img w h (map g [0 ..< unat (4 * size_of_region w h) div 4]) = Some buf"
proof -
  from assms obtain img s2 where
    g: "(if shm_ext e then grab_shm e x y w h (issue Call_XShmQueryExtension s)
         else grab_plain e x y w h (issue Call_XShmQueryExtension s)) = (Some img, s2)"
    and r: "(case malloc e (4 * size_of_region w h) s2 of
               (None, s3) \<Rightarrow> (Null, release (shm_ext e) s3)
             | (Some data, s3) \<Rightarrow>
                 (case convert img w h data of
                    None \<Rightarrow> (Overrun, s3)
                  | Some data' \<Rightarrow> (Data data', release (shm_ext e) s3))) = (Data buf, s')"
    by (auto simp: capture_def XShmQueryExtension_def Let_def split: prod.splits option.splits)
  from g have img: "(if shm_ext e then shm_pixels e x y else get_pixels e x y w h) = Some img"
    by (auto dest: grab_shm_Some grab_plain_Some split: if_splits)
  from r obtain data s3 where m: "malloc e (4 * size_of_region w h) s2 = (Some data, s3)"
    and c: "convert img w h data = Some buf"
    by (auto split: prod.splits option.splits)
  from m obtain g where "unat (4 * size_of_region w h) \<le> PTRDIFF_MAX"
    "heap_block e (4 * size_of_region w h) = Some g"
    "data = map g [0 ..< unat (4 * size_of_region w h) div 4]"
    by (auto simp: malloc_def split: if_splits option.splits)
  with img c that show thesis by blast
qed

lemma x11_grab_screen_Data:
  assumes "x11_grab_screen e x11display x y w h = (Data buf, s')"
  obtains d where "display_str_of e x11display = Some d" "open_ok e d"
    "\<not> out_of_bounds e x y w h"
    "capture e x y w h (no_resources\<lparr>calls := [Call_XOpenDisplay d], display_open := True\<rparr>) = (Data buf, s')"
  using assms
  by (auto simp: x11_grab_screen_def XOpenDisplay_def issue_def no_resources_def
           split: option.splits if_splits)

lemma argb_masks: "(0xff :: int32) = mask 8" "(0xff000000 :: int32) = push_bit 24 (mask 8)"
  by (simp_all add: mask_eq_exp_minus_1 push_bit_eq_mult)

lemma to_argb_top_byte: "drop_bit 24 (to_argb p) = 0xff"
  unfolding to_argb_def argb_masks
  by (rule bit_word_eqI) (auto simp: bit_simps)

lemma to_argb_low_bits: "to_argb (take_bit 32 p) = to_argb p"
  unfolding to_argb_def
  by (rule bit_word_eqI) (auto simp: bit_simps)

lemma ucast_size_of_region: "(ucast (size_of_region w h) :: int32) = w * h"
  unfolding size_of_region_def
  by (rule bit_word_eqI) (auto simp: bit_simps)

text \<open>What a successful capture says about the block and the image.\<close>

lemma Data_facts:
  assumes "x11_grab_screen e x11display x y w h = (Data buf, s)"
  shows "\<exists>img. (if shm_ext e then shm_pixels e x y else get_pixels e x y w h) = Some img \<and>
    0 \<le> sint (w * h) \<and>
    length buf = nat (sint (w * h)) \<and>
    length buf = unat (size_of_region w h) \<and>
    nat (sint h) * nat (sint w) \<le> length buf \<and>
    (\<forall>i j. int i < sint w \<longrightarrow> int j < sint h \<longrightarrow>
       buf ! (j * nat (sint w) + i) = to_argb (XGetPixel img i j)) \<and>
    (\<exists>data. length data = length buf \<and> convert img w h data = Some buf)"
proof -
  from assms obtain d where
    "capture e x y w h (no_resources\<lparr>calls := [Call_XOpenDisplay d], display_open := True\<rparr>) = (Data buf, s)"
    by (rule x11_grab_screen_Data)
  then obtain img g where img: "(if shm_ext e then shm_pixels e x y else get_pixels e x y w h) = Some img"
    and fits: "unat (4 * size_of_region w h) \<le> PTRDIFF_MAX"
    and c: "convert img w h (map g [0 ..< unat (4 * size_of_region w h) div 4]) = Some buf"
    by (rule capture_Data)
  note sz = size_fits [OF fits]
  note cv = convert_Some [OF c]
  have len: "length buf = nat (sint (w * h))" using cv(1) sz(2) by simp
  have "length buf = unat (size_of_region w h)" using len sz(3) by simp
  moreover have "nat (sint h) * nat (sint w) \<le> length buf" using cv(1,2) by simp
  moreover have "buf ! (j * nat (sint w) + i) = to_argb (XGetPixel img i j)"
    if "int i < sint w" "int j < sint h" for i j
    using cv(3) [OF that] .
  moreover have "\<exists>data. length data = length buf \<and> convert img w h data = Some buf"
    using c cv(1) by (intro exI [of _ "map g [0 ..< unat (4 * size_of_region w h) div 4]"]) simp
  ultimately show ?thesis using img sz(1) len by blast
qed

lemma Data_exact_length:
  assumes "x11_grab_screen e x11display x y w h = (Data buf, s)" "0 \<le> sint w" "0 \<le> sint h"
  shows "int (length buf) = sint w * sint h" "length buf = nat (sint h) * nat (sint w)"
proof -
  from Data_facts [OF assms(1)] have f: "0 \<le> sint (w * h)" "length buf = nat (sint (w * h))"
    "nat (sint h) * nat (sint w) \<le> length buf"
    by blast+
  from product_exact [OF assms(2,3) f(1)] f(2,3) have e: "sint (w * h) = sint w * sint h" by simp
  with f(1,2) show "int (length buf) = sint w * sint h" by simp
  from f(2) e have "length buf = nat (sint h * sint w)" by (simp add: mult.commute)
  then show "length buf = nat (sint h) * nat (sint w)" using assms(2,3)
    by (simp add: nat_mult_distrib)
qed











lemma SetIntArrayRegion_whole:
  assumes "SetIntArrayRegion (replicate n 0) 0 len buf = Some arr" "nat (sint len) = n" "length buf = n"
  shows "arr = buf"
  using assms by (auto simp: SetIntArrayRegion_def split: if_splits)

subsection \<open>Runs in the concrete environments\<close>

lemma eval_plain:
  "x11_grab_screen env_plain None 0 0 2 2 =
     (Data [0xff000000, 0xff000100, 0xff000001, 0xff000101],
      \<lparr>display_open = False, image_live = False, shm_mapped = False, shm_server = False,
       calls = [Call_XOpenDisplay '':0.0'', Call_XShmQueryExtension, Call_XGetImage 0 0 2 2,
                Call_malloc 16, Call_XDestroyImage, Call_XCloseDisplay]\<rparr>)"
  by (simp add: eval_simps)

lemma eval_jni_plain:
  "Java_net_java_sip_communicator_impl_neomedia_imgstreaming_UnixScreenCapture_grabScreen
     env_plain 0 0 2 2 = JArray [0xff000000, 0xff000100, 0xff000001, 0xff000101]"
  unfolding Java_net_java_sip_communicator_impl_neomedia_imgstreaming_UnixScreenCapture_grabScreen_def
    Let_def eval_plain
  by (simp add: size_of_region_def NewIntArray_def SetIntArrayRegion_def env_defs)

lemma eval_shm:
  "x11_grab_screen env_shm None 1 1 2 2 =
     (Data [0xff000101, 0xff000201, 0xff000102, 0xff000202],
      \<lparr>display_open = False, image_live = False, shm_mapped = False, shm_server = False,
       calls = [Call_XOpenDisplay '':0.0'', Call_XShmQueryExtension, Call_XShmCreateImage 2 2,
                Call_shmget, Call_shmat, Call_shmctl_RMID, Call_XShmAttach,
                Call_XShmGetImage 1 1, Call_malloc 16, Call_XDestroyImage, Call_XShmDetach,
                Call_shmdt, Call_XCloseDisplay]\<rparr>)"
  by (simp add: eval_simps)

lemma eval_other:
  "x11_grab_screen env_other None 1 1 2 2 =
     (Data [0xff000101, 0xff000201, 0xff000102, 0xff000202],
      \<lparr>display_open = False, image_live = False, shm_mapped = False, shm_server = False,
       calls = [Call_XOpenDisplay '':0.0'', Call_XShmQueryExtension, Call_XGetImage 1 1 2 2,
                Call_malloc 16, Call_XDestroyImage, Call_XCloseDisplay]\<rparr>)"
  by (simp add: eval_simps)

text \<open>
  The scenarios the specification lists. A: a 1 by 1 capture at the origin of the 10 by 10
  screen returns the one pixel with its top byte forced. B: a 20 by 20 capture at
  \<open>(5, 5)\<close> is refused. C: when the display cannot be opened nothing else is called.
  D: when the segment cannot be attached the call fails and the connection is closed.
\<close>

lemma scenario_A:
  "fst (x11_grab_screen env_plain None 0 0 1 1) = Data [0xff000000 OR ucast (mock_image 0 0 0 0)]"
  by (simp add: eval_simps)

lemma scenario_B:
  "x11_grab_screen env_plain None 5 5 20 20 =
     (Null, \<lparr>display_open = False, image_live = False, shm_mapped = False, shm_server = False,
             calls = [Call_XOpenDisplay '':0.0'', Call_XCloseDisplay]\<rparr>)"
  by (simp add: eval_simps)

lemma scenario_C:
  "x11_grab_screen (env_plain\<lparr>open_ok := (\<lambda>d. False)\<rparr>) None 0 0 1 1 =
     (Null, \<lparr>display_open = False, image_live = False, shm_mapped = False, shm_server = False,
             calls = [Call_XOpenDisplay '':0.0'']\<rparr>)"
  by (simp add: eval_simps)

lemma scenario_D:
  "fst (x11_grab_screen env_attach_fails None 0 0 1 1) = Null \<and>
   \<not> display_open (snd (x11_grab_screen env_attach_fails None 0 0 1 1)) \<and>
   last (calls (snd (x11_grab_screen env_attach_fails None 0 0 1 1))) = Call_XCloseDisplay"
  by (simp add: eval_simps)

subsection \<open>C2: the conversion\<close>

text \<open>
  C2. On every successful capture, for each row \<open>j\<close> in \<open>[0, h)\<close> and each column \<open>i\<close> in
  \<open>[0, w)\<close>, the entry of the returned block at index \<open>j * w + i\<close> (an index inside the
  block) is the native pixel value at \<open>(i, j)\<close> of the image the path obtained, truncated
  to 32 bits and OR-ed with \<open>0xFF000000\<close>. Clearing the bits of the pixel value above
  bit 31 first gives the same entry, and its top byte is \<open>0xFF\<close>. For a region of
  non-negative width and height these are all the entries of the block, so every pixel
  of the result has top byte \<open>0xFF\<close>.
\<close>

theorem pixels_converted:
  assumes "x11_grab_screen e x11display x y w h = (Data buf, s)"
  shows "\<exists>img. (if shm_ext e then shm_pixels e x y else get_pixels e x y w h) = Some img \<and>
     (\<forall>i j. int i < sint w \<and> int j < sint h \<longrightarrow>
        j * nat (sint w) + i < length buf \<and>
        buf ! (j * nat (sint w) + i) = (ucast (XGetPixel img i j) :: 32 word) OR 0xff000000 \<and>
        buf ! (j * nat (sint w) + i) = (ucast (take_bit 32 (XGetPixel img i j)) :: 32 word) OR 0xff000000 \<and>
        drop_bit 24 (buf ! (j * nat (sint w) + i)) = 0xff) \<and>
     (0 \<le> sint w \<and> 0 \<le> sint h \<longrightarrow> (\<forall>k < length buf. drop_bit 24 (buf ! k) = 0xff))"
proof -
  from Data_facts [OF assms] obtain img where
    img: "(if shm_ext e then shm_pixels e x y else get_pixels e x y w h) = Some img"
    and fits: "nat (sint h) * nat (sint w) \<le> length buf"
    and px: "\<And>i j. int i < sint w \<Longrightarrow> int j < sint h \<Longrightarrow>
       buf ! (j * nat (sint w) + i) = to_argb (XGetPixel img i j)"
    by blast
  have inside: "j * nat (sint w) + i < length buf" if "int i < sint w" "int j < sint h" for i j
  proof -
    from that have "i < nat (sint w)" "Suc j \<le> nat (sint h)" by linarith+
    then have "j * nat (sint w) + i < Suc j * nat (sint w)" by simp
    also have "\<dots> \<le> nat (sint h) * nat (sint w)" using \<open>Suc j \<le> nat (sint h)\<close>
      by (rule mult_le_mono1)
    finally show ?thesis using fits by simp
  qed
  have all: "drop_bit 24 (buf ! k) = 0xff" if "0 \<le> sint w" "0 \<le> sint h" "k < length buf" for k
  proof -
    from Data_exact_length(2) [OF assms that(1,2)] that(3)
    have "k < nat (sint h) * nat (sint w)" by simp
    then obtain i j where "int i < sint w" "int j < sint h" "k = j * nat (sint w) + i"
      by (rule region_index)
    with px [of i j] show ?thesis by (simp add: to_argb_top_byte)
  qed
  show ?thesis
  proof (intro exI [of _ img] conjI allI impI)
    show "(if shm_ext e then shm_pixels e x y else get_pixels e x y w h) = Some img" by (rule img)
  next
    fix i j assume "int i < sint w \<and> int j < sint h"
    then have ij: "int i < sint w" "int j < sint h" by simp_all
    show "j * nat (sint w) + i < length buf" using inside [OF ij] .
    show "buf ! (j * nat (sint w) + i) = (ucast (XGetPixel img i j) :: 32 word) OR 0xff000000"
      using px [OF ij] by (simp add: to_argb_def)
    show "buf ! (j * nat (sint w) + i) = (ucast (take_bit 32 (XGetPixel img i j)) :: 32 word) OR 0xff000000"
      using px [OF ij] to_argb_low_bits [of "XGetPixel img i j"] by (simp add: to_argb_def)
    show "drop_bit 24 (buf ! (j * nat (sint w) + i)) = 0xff"
      using px [OF ij] by (simp add: to_argb_top_byte)
  next
    fix k assume "0 \<le> sint w \<and> 0 \<le> sint h" "k < length buf"
    then show "drop_bit 24 (buf ! k) = 0xff" using all by blast
  qed
qed

theorem pixels_converted_witness:
  "x11_grab_screen env_plain None 0 0 2 2 =
     (Data [0xff000000, 0xff000100, 0xff000001, 0xff000101],
      \<lparr>display_open = False, image_live = False, shm_mapped = False, shm_server = False,
       calls = [Call_XOpenDisplay '':0.0'', Call_XShmQueryExtension, Call_XGetImage 0 0 2 2,
                Call_malloc 16, Call_XDestroyImage, Call_XCloseDisplay]\<rparr>) \<and>
   (\<exists>img. (if shm_ext env_plain then shm_pixels env_plain 0 0
            else get_pixels env_plain 0 0 2 2) = Some img \<and>
     (\<forall>i j. int i < sint (2 :: int32) \<and> int j < sint (2 :: int32) \<longrightarrow>
        j * nat (sint (2 :: int32)) + i < length [0xff000000, 0xff000100, 0xff000001, 0xff000101 :: int32] \<and>
        [0xff000000, 0xff000100, 0xff000001, 0xff000101] ! (j * nat (sint (2 :: int32)) + i)
          = (ucast (XGetPixel img i j) :: 32 word) OR 0xff000000 \<and>
        [0xff000000, 0xff000100, 0xff000001, 0xff000101] ! (j * nat (sint (2 :: int32)) + i)
          = (ucast (take_bit 32 (XGetPixel img i j)) :: 32 word) OR 0xff000000 \<and>
        drop_bit 24 ([0xff000000, 0xff000100, 0xff000001, 0xff000101 :: int32]
          ! (j * nat (sint (2 :: int32)) + i)) = 0xff) \<and>
     (0 \<le> sint (2 :: int32) \<and> 0 \<le> sint (2 :: int32) \<longrightarrow>
        (\<forall>k < length [0xff000000, 0xff000100, 0xff000001, 0xff000101 :: int32].
           drop_bit 24 ([0xff000000, 0xff000100, 0xff000001, 0xff000101 :: int32] ! k) = 0xff)))"
  by (rule conjI [OF eval_plain pixels_converted [OF eval_plain]])

subsection \<open>C5: the size of the result\<close>

text \<open>
  C5. On every successful call the returned block has exactly \<open>w * h\<close> entries of 32 bits:
  its length is the \<^verbatim>\<open>size\<close> the routine computed, which is the 32-bit product \<open>w * h\<close>,
  and for non-negative \<open>w\<close> and \<open>h\<close> that is the product of the two numbers. When the JNI
  entry point returns an array, the capture had returned a block, \<^verbatim>\<open>SetIntArrayRegion\<close>
  was called with length \<open>w * h\<close> on a fresh array of that length, and the array handed to
  the caller is the block: exactly \<open>w * h\<close> elements were copied. The proof uses that
  \<^verbatim>\<open>malloc\<close> returns no block of more than \<^verbatim>\<open>PTRDIFF_MAX\<close> bytes, which rules out the
  sizes that a negative 32-bit product turns into.
\<close>

theorem output_size:
  "(x11_grab_screen e x11display x y w h = (Data buf, s) \<longrightarrow>
      length buf = unat (size_of_region w h) \<and> int (length buf) = sint (w * h) \<and>
      (0 \<le> sint w \<and> 0 \<le> sint h \<longrightarrow> int (length buf) = sint w * sint h)) \<and>
   (Java_net_java_sip_communicator_impl_neomedia_imgstreaming_UnixScreenCapture_grabScreen e x y w h
      = JArray arr \<longrightarrow>
      (\<exists>data s'. x11_grab_screen e None x y w h = (Data data, s') \<and>
         SetIntArrayRegion (replicate (length data) 0) 0 (w * h) data = Some arr \<and>
         arr = data \<and> int (length arr) = sint (w * h) \<and>
         (0 \<le> sint w \<and> 0 \<le> sint h \<longrightarrow> int (length arr) = sint w * sint h)))"
proof (intro conjI impI)
  assume d: "x11_grab_screen e x11display x y w h = (Data buf, s)"
  from Data_facts [OF d] have f: "0 \<le> sint (w * h)" "length buf = nat (sint (w * h))"
    "length buf = unat (size_of_region w h)"
    by blast+
  show "length buf = unat (size_of_region w h)" by (rule f(3))
  show "int (length buf) = sint (w * h)" using f(1,2) by simp
  show "int (length buf) = sint w * sint h" if "0 \<le> sint w \<and> 0 \<le> sint h"
    using Data_exact_length(1) [OF d] that by blast
next
  assume j: "Java_net_java_sip_communicator_impl_neomedia_imgstreaming_UnixScreenCapture_grabScreen e x y w h
      = JArray arr"
  obtain r s' where g: "x11_grab_screen e None x y w h = (r, s')"
    by (cases "x11_grab_screen e None x y w h")
  with j obtain data ret where r: "r = Data data"
    and n: "NewIntArray e (w * h) = Some ret"
    and c: "SetIntArrayRegion ret 0 (w * h) data = Some arr"
    unfolding Java_net_java_sip_communicator_impl_neomedia_imgstreaming_UnixScreenCapture_grabScreen_def
    by (auto simp: Let_def ucast_size_of_region split: outcome.splits option.splits)
  from g r have d: "x11_grab_screen e None x y w h = (Data data, s')" by simp
  from Data_facts [OF d] have f: "0 \<le> sint (w * h)" "length data = nat (sint (w * h))"
    by blast+
  from n f have ret: "ret = replicate (length data) 0"
    by (auto simp: NewIntArray_def split: if_splits)
  from c ret have c': "SetIntArrayRegion (replicate (length data) 0) 0 (w * h) data = Some arr"
    by simp
  from SetIntArrayRegion_whole [OF c'] f have eq: "arr = data" by simp
  have "int (length arr) = sint (w * h)" using eq f by simp
  moreover have "int (length arr) = sint w * sint h" if "0 \<le> sint w \<and> 0 \<le> sint h"
    using Data_exact_length(1) [OF d] that eq by blast
  ultimately show "\<exists>data s'. x11_grab_screen e None x y w h = (Data data, s') \<and>
         SetIntArrayRegion (replicate (length data) 0) 0 (w * h) data = Some arr \<and>
         arr = data \<and> int (length arr) = sint (w * h) \<and>
         (0 \<le> sint w \<and> 0 \<le> sint h \<longrightarrow> int (length arr) = sint w * sint h)"
    using d c' eq by blast
qed

theorem output_size_witness:
  "x11_grab_screen env_plain None 0 0 2 2 =
     (Data [0xff000000, 0xff000100, 0xff000001, 0xff000101],
      \<lparr>display_open = False, image_live = False, shm_mapped = False, shm_server = False,
       calls = [Call_XOpenDisplay '':0.0'', Call_XShmQueryExtension, Call_XGetImage 0 0 2 2,
                Call_malloc 16, Call_XDestroyImage, Call_XCloseDisplay]\<rparr>) \<and>
   Java_net_java_sip_communicator_impl_neomedia_imgstreaming_UnixScreenCapture_grabScreen
     env_plain 0 0 2 2 = JArray [0xff000000, 0xff000100, 0xff000001, 0xff000101] \<and>
   0 \<le> sint (2 :: int32) \<and>
   length [0xff000000, 0xff000100, 0xff000001, 0xff000101 :: int32] = unat (size_of_region 2 2) \<and>
   int (length [0xff000000, 0xff000100, 0xff000001, 0xff000101 :: int32])
     = sint (2 :: int32) * sint (2 :: int32)"
proof -
  note t = output_size [of env_plain None 0 0 2 2
      "[0xff000000, 0xff000100, 0xff000001, 0xff000101]"
      "\<lparr>display_open = False, image_live = False, shm_mapped = False, shm_server = False,
       calls = [Call_XOpenDisplay '':0.0'', Call_XShmQueryExtension, Call_XGetImage 0 0 2 2,
                Call_malloc 16, Call_XDestroyImage, Call_XCloseDisplay]\<rparr>"
      "[0xff000000, 0xff000100, 0xff000001, 0xff000101]"]
  have d: "0 \<le> sint (2 :: int32)" by simp
  from t eval_plain d
  have "length [0xff000000, 0xff000100, 0xff000001, 0xff000101 :: int32] = unat (size_of_region 2 2)"
    and "int (length [0xff000000, 0xff000100, 0xff000001, 0xff000101 :: int32])
     = sint (2 :: int32) * sint (2 :: int32)"
    by blast+
  with eval_plain eval_jni_plain d show ?thesis by blast
qed

subsection \<open>C4: the fast path and the fallback agree\<close>

text \<open>
  C4. Take one region, a capture of it that went through the shared-memory fast path and
  a capture of it that went through \<^verbatim>\<open>XGetImage\<close>, both successful, with the display service
  supplying the same pixel value at every position of the region. Then the two blocks
  have the same length, which covers every pixel of the region, and the same entry for
  every pixel of the region; for a region of non-negative width and height (the region
  of the contract) the two blocks are equal.
  What the heap held in the fresh blocks plays no part. (A block for a negative width or
  height can have slots that the loops never write; those keep what the heap held.)
\<close>

theorem fast_path_fallback_equal:
  assumes "x11_grab_screen e1 d1 x y w h = (Data b1, s1)" and "shm_ext e1"
    and "x11_grab_screen e2 d2 x y w h = (Data b2, s2)" and "\<not> shm_ext e2"
    and "shm_pixels e1 x y = Some img1" and "get_pixels e2 x y w h = Some img2"
    and "\<forall>i j. int i < sint w \<and> int j < sint h \<longrightarrow> XGetPixel img1 i j = XGetPixel img2 i j"
  shows "length b1 = length b2 \<and> nat (sint h) * nat (sint w) \<le> length b1 \<and>
         (\<forall>k < nat (sint h) * nat (sint w). b1 ! k = b2 ! k) \<and>
         (0 \<le> sint w \<and> 0 \<le> sint h \<longrightarrow> b1 = b2)"
proof -
  from Data_facts [OF assms(1)] assms(2,5) have
    len1: "length b1 = nat (sint (w * h))"
    and fits: "nat (sint h) * nat (sint w) \<le> length b1"
    and px1: "\<And>i j. int i < sint w \<Longrightarrow> int j < sint h \<Longrightarrow>
       b1 ! (j * nat (sint w) + i) = to_argb (XGetPixel img1 i j)"
    by auto
  from Data_facts [OF assms(3)] assms(4,6) have
    len2: "length b2 = nat (sint (w * h))"
    and px2: "\<And>i j. int i < sint w \<Longrightarrow> int j < sint h \<Longrightarrow>
       b2 ! (j * nat (sint w) + i) = to_argb (XGetPixel img2 i j)"
    by auto
  have len: "length b1 = length b2" using len1 len2 by simp
  have same: "b1 ! k = b2 ! k" if "k < nat (sint h) * nat (sint w)" for k
  proof -
    from that obtain i j where ij: "int i < sint w" "int j < sint h" "k = j * nat (sint w) + i"
      by (rule region_index)
    from px1 [OF ij(1,2)] px2 [OF ij(1,2)] assms(7) ij show ?thesis by simp
  qed
  have "b1 = b2" if "0 \<le> sint w \<and> 0 \<le> sint h"
  proof (rule nth_equalityI [OF len])
    fix k assume "k < length b1"
    with Data_exact_length(2) [OF assms(1)] that have "k < nat (sint h) * nat (sint w)" by simp
    then show "b1 ! k = b2 ! k" by (rule same)
  qed
  with len fits same show ?thesis by blast
qed

theorem fast_path_fallback_equal_witness:
  "x11_grab_screen env_shm None 1 1 2 2 =
     (Data [0xff000101, 0xff000201, 0xff000102, 0xff000202],
      \<lparr>display_open = False, image_live = False, shm_mapped = False, shm_server = False,
       calls = [Call_XOpenDisplay '':0.0'', Call_XShmQueryExtension, Call_XShmCreateImage 2 2,
                Call_shmget, Call_shmat, Call_shmctl_RMID, Call_XShmAttach,
                Call_XShmGetImage 1 1, Call_malloc 16, Call_XDestroyImage, Call_XShmDetach,
                Call_shmdt, Call_XCloseDisplay]\<rparr>) \<and>
   shm_ext env_shm \<and>
   x11_grab_screen env_other None 1 1 2 2 =
     (Data [0xff000101, 0xff000201, 0xff000102, 0xff000202],
      \<lparr>display_open = False, image_live = False, shm_mapped = False, shm_server = False,
       calls = [Call_XOpenDisplay '':0.0'', Call_XShmQueryExtension, Call_XGetImage 1 1 2 2,
                Call_malloc 16, Call_XDestroyImage, Call_XCloseDisplay]\<rparr>) \<and>
   \<not> shm_ext env_other \<and>
   shm_pixels env_shm 1 1 = Some (mock_image 1 1) \<and>
   get_pixels env_other 1 1 2 2 = Some (\<lambda>i j. if i < 2 \<and> j < 2 then mock_image 1 1 i j else 0) \<and>
   0 \<le> sint (2 :: int32) \<and>
   [0xff000101, 0xff000201, 0xff000102, 0xff000202] = [0xff000101, 0xff000201, 0xff000102, 0xff000202 :: int32]"
proof -
  have p1: "shm_pixels env_shm 1 1 = Some (mock_image 1 1)" by (simp add: env_defs)
  have p2: "get_pixels env_other 1 1 2 2 = Some (\<lambda>i j. if i < 2 \<and> j < 2 then mock_image 1 1 i j else 0)"
    by (simp add: env_defs)
  have s1: "shm_ext env_shm" and s2: "\<not> shm_ext env_other" by (simp_all add: env_defs)
  have same: "\<forall>i j. int i < sint (2 :: int32) \<and> int j < sint (2 :: int32) \<longrightarrow>
      XGetPixel (mock_image 1 1) i j
      = XGetPixel (\<lambda>i j. if i < 2 \<and> j < 2 then mock_image 1 1 i j else 0) i j"
    by (simp add: XGetPixel_def)
  from fast_path_fallback_equal [OF eval_shm s1 eval_other s2 p1 p2 same]
  show ?thesis using eval_shm eval_other p1 p2 s1 s2 by simp
qed

subsection \<open>C10: what the outcome depends on\<close>




subsection \<open>C7: no display name\<close>

text \<open>
  C7. When no display string is passed and \<^verbatim>\<open>getenv("DISPLAY")\<close> yields none, the routine
  returns the null pointer having issued no call at all: no connection was opened, no
  image created, no shared memory touched.
\<close>

theorem no_display_no_resources:
  assumes "x11display = None" and "env_DISPLAY e = None"
  shows "x11_grab_screen e x11display x y w h =
     (Null, \<lparr>display_open = False, image_live = False, shm_mapped = False, shm_server = False,
             calls = []\<rparr>)"
  using assms by (simp add: x11_grab_screen_def display_str_of_def no_resources_def)

theorem no_display_no_resources_witness:
  "env_DISPLAY env_no_display = None \<and>
   x11_grab_screen env_no_display None 0 0 1 1 =
     (Null, \<lparr>display_open = False, image_live = False, shm_mapped = False, shm_server = False,
             calls = []\<rparr>)"
proof -
  have e: "env_DISPLAY env_no_display = None" by (simp add: env_defs)
  from no_display_no_resources [OF refl e] e show ?thesis by simp
qed

subsection \<open>C3: the bounds check\<close>

text \<open>
  The check of line 84 compares the 32-bit sums. Where neither sum wraps around, a
  request that reaches past the right or the bottom edge of the screen is refused with the
  connection closed and nothing else called.
\<close>

lemma out_of_bounds_exact:
  assumes "sint w + sint x < 2 ^ 31" "- (2 ^ 31) \<le> sint w + sint x"
    "sint h + sint y < 2 ^ 31" "- (2 ^ 31) \<le> sint h + sint y"
  shows "out_of_bounds e x y w h \<longleftrightarrow>
     sint (screen_width e) < sint x + sint w \<or> sint (screen_height e) < sint y + sint h"
proof -
  have "sint (w + x) = sint w + sint x"
    using assms(1,2) by (simp add: sint_word_ariths signed_take_bit_int_eq_self)
  moreover have "sint (h + y) = sint h + sint y"
    using assms(3,4) by (simp add: sint_word_ariths signed_take_bit_int_eq_self)
  ultimately show ?thesis by (simp add: out_of_bounds_def add.commute)
qed

lemma out_of_bounds_rejected:
  assumes "display_str_of e x11display = Some d" and "open_ok e d"
    and "sint w + sint x < 2 ^ 31" "- (2 ^ 31) \<le> sint w + sint x"
    and "sint h + sint y < 2 ^ 31" "- (2 ^ 31) \<le> sint h + sint y"
    and "sint (screen_width e) < sint x + sint w \<or> sint (screen_height e) < sint y + sint h"
  shows "x11_grab_screen e x11display x y w h =
     (Null, \<lparr>display_open = False, image_live = False, shm_mapped = False, shm_server = False,
             calls = [Call_XOpenDisplay d, Call_XCloseDisplay]\<rparr>)"
  using assms(1,2,7) out_of_bounds_exact [OF assms(3-6), of e]
  by (simp add: x11_grab_screen_def call_defs no_resources_def)

lemma out_of_bounds_fails:
  assumes "sint w + sint x < 2 ^ 31" "- (2 ^ 31) \<le> sint w + sint x"
    and "sint h + sint y < 2 ^ 31" "- (2 ^ 31) \<le> sint h + sint y"
    and "sint (screen_width e) < sint x + sint w \<or> sint (screen_height e) < sint y + sint h"
  shows "fst (x11_grab_screen e x11display x y w h) = Null \<and>
         \<not> display_open (snd (x11_grab_screen e x11display x y w h)) \<and>
         (\<forall>a b c d. Call_XGetImage a b c d
            \<notin> set (calls (snd (x11_grab_screen e x11display x y w h)))) \<and>
         (\<forall>a b. Call_XShmGetImage a b
            \<notin> set (calls (snd (x11_grab_screen e x11display x y w h))))"
  using assms(5) out_of_bounds_exact [OF assms(1-4), of e]
  by (auto simp: x11_grab_screen_def call_defs no_resources_def split: option.splits)

text \<open>
  C3. The claim is that every request with \<open>x + w > screenWidth\<close> or
  \<open>y + h > screenHeight\<close> fails with no image request issued. At \<open>x = 2147483647\<close>,
  \<open>w = 1\<close> on the 10 by 10 screen, \<open>x + w\<close> exceeds the width, but the 32-bit sum
  \<open>w + x\<close> wraps to a negative number, the check passes, and the routine requests the image
  with \<^verbatim>\<open>XGetImage\<close> and returns a block.
\<close>

theorem bounds_check_overflow:
  "sint (screen_width env_plain) < sint (2147483647 :: int32) + sint (1 :: int32) \<and>
   x11_grab_screen env_plain None 2147483647 0 1 1 =
     (Data [0xffffff00],
      \<lparr>display_open = False, image_live = False, shm_mapped = False, shm_server = False,
       calls = [Call_XOpenDisplay '':0.0'', Call_XShmQueryExtension,
                Call_XGetImage 2147483647 0 1 1, Call_malloc 4, Call_XDestroyImage,
                Call_XCloseDisplay]\<rparr>)"
  by (simp add: eval_simps)

subsection \<open>C8: negative origins\<close>

text \<open>
  C8, as stated, says that every call with negative \<open>x\<close> or \<open>y\<close> and \<open>x + w \<le> screenWidth\<close>,
  \<open>y + h \<le> screenHeight\<close> passes the validation and proceeds to the server-side image
  request. Two runs show otherwise. With \<open>x = -2147483648\<close> and \<open>w = -1\<close> the 32-bit sum wraps
  to a large positive number and the request is refused. With \<open>x = -1\<close> on a display with
  the shared-memory extension where \<^verbatim>\<open>XShmCreateImage\<close> fails, the validation is passed but
  the routine returns before any image request reaches the server.
\<close>

theorem negative_origin_counterexample:
  "sint (- 2147483648 :: int32) < 0 \<and>
   sint (- 2147483648 :: int32) + sint (- 1 :: int32) \<le> sint (screen_width env_plain) \<and>
   sint (0 :: int32) + sint (1 :: int32) \<le> sint (screen_height env_plain) \<and>
   x11_grab_screen env_plain None (- 2147483648) 0 (- 1) 1 =
     (Null, \<lparr>display_open = False, image_live = False, shm_mapped = False, shm_server = False,
             calls = [Call_XOpenDisplay '':0.0'', Call_XCloseDisplay]\<rparr>) \<and>
   sint (- 1 :: int32) < 0 \<and>
   sint (- 1 :: int32) + sint (2 :: int32) \<le> sint (screen_width env_create_fails) \<and>
   sint (0 :: int32) + sint (2 :: int32) \<le> sint (screen_height env_create_fails) \<and>
   x11_grab_screen env_create_fails None (- 1) 0 2 2 =
     (Null, \<lparr>display_open = False, image_live = False, shm_mapped = False, shm_server = False,
             calls = [Call_XOpenDisplay '':0.0'', Call_XShmQueryExtension,
                      Call_XShmCreateImage 2 2, Call_XCloseDisplay]\<rparr>)"
  by (simp add: eval_simps)

text \<open>
  C8, amended. For every call with negative \<open>x\<close> or negative \<open>y\<close> such that
  \<open>x + w \<le> screenWidth\<close> and \<open>y + h \<le> screenHeight\<close>, and such that neither sum falls below
  \<open>-2^31\<close> (so the 32-bit sums do not wrap; always so for non-negative \<open>w\<close> and \<open>h\<close>), the
  validation does not refuse the request: the routine runs on from the open connection,
  and its first three calls are \<^verbatim>\<open>XOpenDisplay\<close>, \<^verbatim>\<open>XShmQueryExtension\<close> and the image
  acquisition for the requested region, \<^verbatim>\<open>XGetImage(x, y, w, h)\<close> on the fallback path and
  \<^verbatim>\<open>XShmCreateImage(w, h)\<close> on the fast path. On the fast path \<^verbatim>\<open>XShmGetImage(x, y)\<close> is
  issued once the image and the segment are set up.
\<close>

theorem negative_origin_accepted:
  assumes "display_str_of e x11display = Some d" and "open_ok e d"
    and "sint x < 0 \<or> sint y < 0"
    and "sint x + sint w \<le> sint (screen_width e)" and "sint y + sint h \<le> sint (screen_height e)"
    and "- (2 ^ 31) \<le> sint x + sint w" and "- (2 ^ 31) \<le> sint y + sint h"
  shows "x11_grab_screen e x11display x y w h =
           capture e x y w h
             \<lparr>display_open = True, image_live = False, shm_mapped = False, shm_server = False,
              calls = [Call_XOpenDisplay d]\<rparr> \<and>
         take 3 (calls (snd (x11_grab_screen e x11display x y w h))) =
           [Call_XOpenDisplay d, Call_XShmQueryExtension,
            if shm_ext e then Call_XShmCreateImage w h else Call_XGetImage x y w h] \<and>
         (shm_ext e \<and> create_ok e w h \<and> shmget_ok e \<and> shmat_ok e \<and> attach_ok e \<longrightarrow>
            Call_XShmGetImage x y \<in> set (calls (snd (x11_grab_screen e x11display x y w h))))"
proof -
  have w: "sint (screen_width e) < 2 ^ 31" and h: "sint (screen_height e) < 2 ^ 31"
    using sint32_range [of "screen_width e"] sint32_range [of "screen_height e"] by simp_all
  have "\<not> out_of_bounds e x y w h"
    using out_of_bounds_exact [of w x h y e] assms(4-7) w h by (simp add: add.commute)
  with assms(1,2) have run: "x11_grab_screen e x11display x y w h =
           capture e x y w h
             \<lparr>display_open = True, image_live = False, shm_mapped = False, shm_server = False,
              calls = [Call_XOpenDisplay d]\<rparr>"
    by (simp add: x11_grab_screen_def XOpenDisplay_def issue_def no_resources_def)
  show ?thesis unfolding run
    by (auto simp: capture_def grab_shm_def grab_plain_def release_def call_defs Let_def
             split: option.splits)
qed

theorem negative_origin_accepted_witness:
  "display_str_of env_plain None = Some '':0.0'' \<and> open_ok env_plain '':0.0'' \<and>
   sint (- 1 :: int32) < 0 \<and>
   sint (- 1 :: int32) + sint (2 :: int32) \<le> sint (screen_width env_plain) \<and>
   sint (0 :: int32) + sint (2 :: int32) \<le> sint (screen_height env_plain) \<and>
   - (2 ^ 31) \<le> sint (- 1 :: int32) + sint (2 :: int32) \<and>
   - (2 ^ 31) \<le> sint (0 :: int32) + sint (2 :: int32) \<and>
   take 3 (calls (snd (x11_grab_screen env_plain None (- 1) 0 2 2))) =
     [Call_XOpenDisplay '':0.0'', Call_XShmQueryExtension, Call_XGetImage (- 1) 0 2 2]"
proof -
  have h: "display_str_of env_plain None = Some '':0.0''" "open_ok env_plain '':0.0''"
    "sint (- 1 :: int32) < 0 \<or> sint (0 :: int32) < 0"
    "sint (- 1 :: int32) + sint (2 :: int32) \<le> sint (screen_width env_plain)"
    "sint (0 :: int32) + sint (2 :: int32) \<le> sint (screen_height env_plain)"
    "- (2 ^ 31) \<le> sint (- 1 :: int32) + sint (2 :: int32)"
    "- (2 ^ 31) \<le> sint (0 :: int32) + sint (2 :: int32)"
    by (simp_all add: env_defs display_str_of_def)
  have s: "\<not> shm_ext env_plain" by (simp add: env_defs)
  from negative_origin_accepted [OF h]
  have "take 3 (calls (snd (x11_grab_screen env_plain None (- 1) 0 2 2))) =
     [Call_XOpenDisplay '':0.0'', Call_XShmQueryExtension,
      if shm_ext env_plain then Call_XShmCreateImage 2 2 else Call_XGetImage (- 1) 0 2 2]"
    by (rule conjunct2 [THEN conjunct1])
  with s have "take 3 (calls (snd (x11_grab_screen env_plain None (- 1) 0 2 2))) =
     [Call_XOpenDisplay '':0.0'', Call_XShmQueryExtension, Call_XGetImage (- 1) 0 2 2]"
    by simp
  with h show ?thesis by simp
qed

subsection \<open>C9: image creation fails on the fast path\<close>

text \<open>
  C9. On the fast path (the display opened, the region passed the check, the server has
  the extension), when \<^verbatim>\<open>XShmCreateImage\<close> returns no image the routine returns the null
  pointer with the connection closed, and its calls were exactly \<^verbatim>\<open>XOpenDisplay\<close>,
  \<^verbatim>\<open>XShmQueryExtension\<close>, \<^verbatim>\<open>XShmCreateImage\<close>, \<^verbatim>\<open>XCloseDisplay\<close>: no shared-memory
  operation was attempted.
\<close>

theorem image_creation_failure:
  assumes "display_str_of e x11display = Some d" and "open_ok e d"
    and "\<not> out_of_bounds e x y w h" and "shm_ext e" and "\<not> create_ok e w h"
  shows "x11_grab_screen e x11display x y w h =
     (Null, \<lparr>display_open = False, image_live = False, shm_mapped = False, shm_server = False,
             calls = [Call_XOpenDisplay d, Call_XShmQueryExtension, Call_XShmCreateImage w h,
                      Call_XCloseDisplay]\<rparr>)"
  using assms
  by (simp add: x11_grab_screen_def capture_def grab_shm_def call_defs no_resources_def Let_def)

theorem image_creation_failure_witness:
  "display_str_of env_create_fails None = Some '':0.0'' \<and> open_ok env_create_fails '':0.0'' \<and>
   \<not> out_of_bounds env_create_fails 1 1 2 2 \<and> shm_ext env_create_fails \<and>
   \<not> create_ok env_create_fails 2 2 \<and>
   x11_grab_screen env_create_fails None 1 1 2 2 =
     (Null, \<lparr>display_open = False, image_live = False, shm_mapped = False, shm_server = False,
             calls = [Call_XOpenDisplay '':0.0'', Call_XShmQueryExtension,
                      Call_XShmCreateImage 2 2, Call_XCloseDisplay]\<rparr>)"
proof -
  have h: "display_str_of env_create_fails None = Some '':0.0''"
    "open_ok env_create_fails '':0.0''" "\<not> out_of_bounds env_create_fails 1 1 2 2"
    "shm_ext env_create_fails" "\<not> create_ok env_create_fails 2 2"
    by (simp_all add: env_defs display_str_of_def out_of_bounds_def)
  from image_creation_failure [OF h] h show ?thesis by simp
qed

subsection \<open>C6: no fallback after a failed shared-memory setup\<close>

text \<open>
  C6. When the server reports the extension and \<^verbatim>\<open>shmget\<close>, \<^verbatim>\<open>shmat\<close> or \<^verbatim>\<open>XShmAttach\<close>
  fails, the call returns the null pointer, the connection is not open when it returns,
  and no \<^verbatim>\<open>XGetImage\<close> was issued: the fallback path is never tried.
\<close>

theorem shm_setup_failure_is_terminal:
  assumes "shm_ext e" and "\<not> shmget_ok e \<or> \<not> shmat_ok e \<or> \<not> attach_ok e"
  shows "fst (x11_grab_screen e x11display x y w h) = Null \<and>
         \<not> display_open (snd (x11_grab_screen e x11display x y w h)) \<and>
         (\<forall>a b c d. Call_XGetImage a b c d \<notin> set (calls (snd (x11_grab_screen e x11display x y w h))))"
  using assms
  by (auto simp: x11_grab_screen_def capture_def grab_shm_def call_defs no_resources_def Let_def
           split: option.splits)

theorem shm_setup_failure_is_terminal_witness:
  "shm_ext env_attach_fails \<and> shmget_ok env_attach_fails \<and> shmat_ok env_attach_fails \<and>
   \<not> attach_ok env_attach_fails \<and>
   fst (x11_grab_screen env_attach_fails None 1 1 2 2) = Null \<and>
   \<not> display_open (snd (x11_grab_screen env_attach_fails None 1 1 2 2)) \<and>
   (\<forall>a b c d. Call_XGetImage a b c d
       \<notin> set (calls (snd (x11_grab_screen env_attach_fails None 1 1 2 2)))) \<and>
   calls (snd (x11_grab_screen env_attach_fails None 1 1 2 2)) =
     [Call_XOpenDisplay '':0.0'', Call_XShmQueryExtension, Call_XShmCreateImage 2 2, Call_shmget,
      Call_shmat, Call_shmctl_RMID, Call_XShmAttach, Call_XCloseDisplay]"
proof -
  have h: "shm_ext env_attach_fails" "shmget_ok env_attach_fails" "shmat_ok env_attach_fails"
    "\<not> attach_ok env_attach_fails"
    by (simp_all add: env_defs)
  then have d: "\<not> shmget_ok env_attach_fails \<or> \<not> shmat_ok env_attach_fails \<or> \<not> attach_ok env_attach_fails"
    by simp
  have c: "calls (snd (x11_grab_screen env_attach_fails None 1 1 2 2)) =
     [Call_XOpenDisplay '':0.0'', Call_XShmQueryExtension, Call_XShmCreateImage 2 2, Call_shmget,
      Call_shmat, Call_shmctl_RMID, Call_XShmAttach, Call_XCloseDisplay]"
    by (simp add: eval_simps)
  from shm_setup_failure_is_terminal [OF h(1) d, of None 1 1 2 2] h c show ?thesis by blast
qed

subsection \<open>C1: release of resources\<close>

text \<open>
  A successful run and a failed run of the fallback path leave nothing behind. A failed
  run of the fast path always closes the connection and leaves no server attachment, but
  it leaves the image behind whenever the image had been created and a later step of the
  setup or the image request failed, and it leaves the segment mapped when \<^verbatim>\<open>XShmAttach\<close>
  failed.
\<close>

lemma success_releases_everything:
  assumes "x11_grab_screen e x11display x y w h = (Data buf, s)"
  shows "\<not> display_open s \<and> \<not> image_live s \<and> \<not> shm_mapped s \<and> \<not> shm_server s"
  using assms
  by (auto simp: x11_grab_screen_def capture_def grab_shm_def grab_plain_def release_def
                 call_defs no_resources_def Let_def
           split: option.splits if_splits)

lemma fallback_failure_releases_everything:
  assumes "x11_grab_screen e x11display x y w h = (Null, s)" and "\<not> shm_ext e"
  shows "\<not> display_open s \<and> \<not> image_live s \<and> \<not> shm_mapped s \<and> \<not> shm_server s"
  using assms
  by (auto simp: x11_grab_screen_def capture_def grab_plain_def release_def
                 call_defs no_resources_def Let_def
           split: option.splits if_splits)

lemma fast_path_failure_leak_iff:
  assumes "x11_grab_screen e x11display x y w h = (Null, s)" and "shm_ext e"
  shows "\<not> display_open s \<and> \<not> shm_server s \<and>
    (image_live s \<longleftrightarrow>
       (\<exists>d. display_str_of e x11display = Some d \<and> open_ok e d) \<and> \<not> out_of_bounds e x y w h \<and>
       create_ok e w h \<and>
       (\<not> shmget_ok e \<or> \<not> shmat_ok e \<or> \<not> attach_ok e \<or> shm_pixels e x y = None)) \<and>
    (shm_mapped s \<longleftrightarrow>
       (\<exists>d. display_str_of e x11display = Some d \<and> open_ok e d) \<and> \<not> out_of_bounds e x y w h \<and>
       create_ok e w h \<and> shmget_ok e \<and> shmat_ok e \<and> \<not> attach_ok e)"
  using assms
  by (auto simp: x11_grab_screen_def capture_def grab_shm_def release_def
                 call_defs no_resources_def Let_def
           split: option.splits if_splits)

text \<open>
  C1. The claim is that every exit path releases every resource acquired so far. Two
  runs on the fast path do not. When \<^verbatim>\<open>XShmAttach\<close> fails (lines 118 to 123) the routine
  only closes the connection: the image of \<^verbatim>\<open>XShmCreateImage\<close> is still allocated and
  the segment is still mapped. When \<^verbatim>\<open>XShmGetImage\<close> fails (lines 126 to 133) it detaches
  and unmaps the segment and closes the connection, but never destroys the image. The
  paths after \<^verbatim>\<open>malloc\<close> (lines 151 to 163 and 181 to 189) do call \<^verbatim>\<open>XDestroyImage\<close>.
\<close>

theorem fast_path_failure_leaks:
  "x11_grab_screen env_attach_fails None 1 1 2 2 =
     (Null, \<lparr>display_open = False, image_live = True, shm_mapped = True, shm_server = False,
             calls = [Call_XOpenDisplay '':0.0'', Call_XShmQueryExtension,
                      Call_XShmCreateImage 2 2, Call_shmget, Call_shmat, Call_shmctl_RMID,
                      Call_XShmAttach, Call_XCloseDisplay]\<rparr>) \<and>
   x11_grab_screen env_shmget_image_fails None 1 1 2 2 =
     (Null, \<lparr>display_open = False, image_live = True, shm_mapped = False, shm_server = False,
             calls = [Call_XOpenDisplay '':0.0'', Call_XShmQueryExtension,
                      Call_XShmCreateImage 2 2, Call_shmget, Call_shmat, Call_shmctl_RMID,
                      Call_XShmAttach, Call_XShmGetImage 1 1, Call_XShmDetach, Call_shmdt,
                      Call_XCloseDisplay]\<rparr>)"
  by (simp add: eval_simps)

end
